theory Spec2Isabelle
  imports Complex_Main "HOL-Library.Word"
begin

section \<open>Python values and exceptions\<close>

text \<open>
  The payload of a model update is dynamically typed. The publisher of \<^verbatim>\<open>src/logger.py\<close>
  tells three kinds of value apart with \<^verbatim>\<open>isinstance\<close>: a \<^verbatim>\<open>list\<close> or
  \<^verbatim>\<open>numpy.ndarray\<close>, a \<^verbatim>\<open>numpy.int32\<close>, and everything else. A tuple is a sequence
  but not a \<^verbatim>\<open>list\<close>, so it belongs to "everything else". A float payload is never
  inspected, only handed on, so it is carried as a real number.
\<close>

datatype pyval =
    PNone
  | PBool bool
  | PInt int
  | PFloat real
  | PStr string
  | PInt32 "32 word"
  | PTuple "pyval list"
  | PList "pyval list"
  | PArray "pyval list"

datatype py_error = IndexError | RedisError string

text \<open>How a call ends: it returns, or an exception leaves it.\<close>

datatype completion = Returned | Raised py_error

text \<open>
  Subscription \<^verbatim>\<open>xs[i]\<close> of a Python sequence: a negative index counts from the end, an
  index outside the sequence raises \<^verbatim>\<open>IndexError\<close>.
\<close>

definition getitem :: "'a list \<Rightarrow> int \<Rightarrow> py_error + 'a" where
  "getitem xs i =
     (let k = (if i < 0 then int (length xs) + i else i)
      in if k < 0 \<or> int (length xs) \<le> k then Inl IndexError else Inr (xs ! nat k))"

section \<open>The external publisher: \<^verbatim>\<open>RedisLogger.publish\<close> (src/logger.py)\<close>

text \<open>
  \<^verbatim>\<open>self.redis.publish(key, val)\<close> is a call into the network client. What it answers is
  decided outside the program, so the client is a parameter: given how many calls were
  made before, the channel and the value, it reports the number of receivers, raises
  \<^verbatim>\<open>redis.exceptions.ConnectionError\<close>, or raises some other exception.
\<close>

datatype redis_reply = Receivers nat | ConnectionError string | OtherError string

type_synonym redis_client = "nat \<Rightarrow> string \<Rightarrow> pyval \<Rightarrow> redis_reply"

text \<open>
  What the publisher has done so far: the calls it made to \<^verbatim>\<open>redis.publish\<close>, those of
  them that went through, and what it wrote with \<^verbatim>\<open>print\<close>.
\<close>

record redis_logger =
  attempts :: "(string \<times> pyval) list"
  delivered :: "(string \<times> pyval) list"
  printed :: "string list"

text \<open>\<^verbatim>\<open>isinstance(val, (list, np.ndarray))\<close>\<close>

definition is_sequence :: "pyval \<Rightarrow> bool" where
  "is_sequence val = (case val of PList xs \<Rightarrow> True | PArray xs \<Rightarrow> True | _ \<Rightarrow> False)"

text \<open>
  \<^verbatim>\<open>if isinstance(val, (list, np.ndarray)): val = val[-1]\<close>
\<close>

definition latest :: "pyval \<Rightarrow> py_error + pyval" where
  "latest val =
     (case val of
        PList xs \<Rightarrow> getitem xs (- 1)
      | PArray xs \<Rightarrow> getitem xs (- 1)
      | _ \<Rightarrow> Inr val)"

text \<open>
  \<^verbatim>\<open>if isinstance(val, np.int32): val = int(val)\<close>
\<close>

definition int_of_int32 :: "pyval \<Rightarrow> pyval" where
  "int_of_int32 val = (case val of PInt32 w \<Rightarrow> PInt (sint w) | _ \<Rightarrow> val)"

text \<open>
  The handler. The two \<^verbatim>\<open>isinstance\<close> statements run before the \<^verbatim>\<open>try\<close>; the
  \<^verbatim>\<open>try\<close> holds the network call alone and its \<^verbatim>\<open>except\<close> clause names
  \<^verbatim>\<open>ConnectionError\<close> only, whose handler prints the error.
\<close>

definition publish :: "redis_client \<Rightarrow> redis_logger \<Rightarrow> string \<times> pyval \<Rightarrow> redis_logger \<times> completion" where
  "publish redis s value =
     (case value of (key, val) \<Rightarrow>
       (case latest val of
          Inl err \<Rightarrow> (s, Raised err)
        | Inr val1 \<Rightarrow>
            (let val2 = int_of_int32 val1;
                 s1 = s\<lparr>attempts := attempts s @ [(key, val2)]\<rparr>
             in case redis (length (attempts s)) key val2 of
                  Receivers n \<Rightarrow> (s1\<lparr>delivered := delivered s1 @ [(key, val2)]\<rparr>, Returned)
                | ConnectionError e \<Rightarrow> (s1\<lparr>printed := printed s1 @ [e]\<rparr>, Returned)
                | OtherError e \<Rightarrow> (s1, Raised (RedisError e)))))"

text \<open>A publisher that has done nothing yet, and a server that is down for the first
  three calls and up from the fourth.\<close>

definition fresh_logger :: redis_logger where
  "fresh_logger = \<lparr>attempts = [], delivered = [], printed = []\<rparr>"

definition down_three_times :: redis_client where
  "down_three_times n key val = (if n < 3 then ConnectionError ''Connection refused'' else Receivers 1)"

section \<open>What the window's handlers do\<close>

text \<open>
  Two revisions of the main window are among the sources: \<^verbatim>\<open>src/view.py\<close> (PySide2, with
  a thread for the sensor and an asyncio loop inside it) and \<^verbatim>\<open>src/openhrv/view.py\<close>
  (PySide6, where only the logger has a thread). The handlers of the first carry the
  prefix \<open>legacy_\<close>. A handler is modelled by the calls it issues on its collaborators,
  in program order.
\<close>

datatype thread =
  ScannerThread | SensorThread | RedisPublisherThread | RedisLoggerThread | LoggerThread

datatype coroutine = SensorStop | ReconnectInternal string

datatype 'd effect =
    Print string
  | ShowMessage string
  | ThreadQuit thread
  | ThreadWait thread
  | RunCoroutineThreadsafe coroutine
  | ConnectClient "'d list"
  | DisconnectClient
  | EmitStartRecording string

text \<open>
  \<^verbatim>\<open>View.closeEvent\<close> of \<^verbatim>\<open>src/view.py\<close>. \<open>RunCoroutineThreadsafe SensorStop\<close> is
  \<^verbatim>\<open>asyncio.run_coroutine_threadsafe(self.sensor.stop(), self.sensor.loop)\<close>. The source
  comments the order of the sensor thread's three lines: "since quit() only works if the
  thread has a running event loop... the event loop must only be stopped AFTER quit() has
  been called!"
\<close>

definition legacy_closeEvent :: "'d effect list" where
  "legacy_closeEvent =
     [Print ''Closing threads...'',
      ThreadQuit ScannerThread, ThreadWait ScannerThread,
      ThreadQuit SensorThread, RunCoroutineThreadsafe SensorStop, ThreadWait SensorThread,
      ThreadQuit RedisPublisherThread, ThreadWait RedisPublisherThread,
      ThreadQuit RedisLoggerThread, ThreadWait RedisLoggerThread]"

text \<open>\<^verbatim>\<open>View.closeEvent\<close> of \<^verbatim>\<open>src/openhrv/view.py\<close>.\<close>

definition closeEvent :: "'d effect list" where
  "closeEvent =
     [Print ''Closing threads...'',
      DisconnectClient,
      ThreadQuit LoggerThread, ThreadWait LoggerThread]"

text \<open>In a trace, \<open>a\<close> is issued before \<open>b\<close>: \<open>b\<close> occurs, and \<open>a\<close> occurs ahead of its
  first occurrence.\<close>

definition issued_before :: "'a \<Rightarrow> 'a \<Rightarrow> 'a list \<Rightarrow> bool" where
  "issued_before a b tr = (b \<in> set tr \<and> a \<in> set (takeWhile (\<lambda>x. x \<noteq> b) tr))"

text \<open>
  \<^verbatim>\<open>str.split(sep)\<close> with a one-character separator and \<^verbatim>\<open>str.strip()\<close>. Strings hold
  code points below 256; of those, \<^verbatim>\<open>str.isspace\<close> holds for the ones listed.
\<close>

fun str_split :: "char \<Rightarrow> string \<Rightarrow> string list" where
  "str_split sep [] = [[]]"
| "str_split sep (c # cs) =
     (if c = sep then [] # str_split sep cs
      else (case str_split sep cs of [] \<Rightarrow> [[c]] | w # ws \<Rightarrow> (c # w) # ws))"

definition isspace :: "char \<Rightarrow> bool" where
  "isspace c =
     (c \<in> set [CHR 0x09, CHR 0x0A, CHR 0x0B, CHR 0x0C, CHR 0x0D, CHR 0x1C, CHR 0x1D,
               CHR 0x1E, CHR 0x1F, CHR 0x20, CHR 0x85, CHR 0xA0])"

definition str_strip :: "string \<Rightarrow> string" where
  "str_strip s = rev (dropWhile isspace (rev (dropWhile isspace s)))"

text \<open>
  \<^verbatim>\<open>View.connect_sensor\<close> of \<^verbatim>\<open>src/view.py\<close>. \<open>mac\<close> is the text of the address menu.
  \<^verbatim>\<open>valid_mac\<close> is imported from \<^verbatim>\<open>utils\<close>, which is not among the sources: it is a
  parameter.
\<close>

definition legacy_connect_sensor :: "(string \<Rightarrow> bool) \<Rightarrow> string \<Rightarrow> 'd effect list" where
  "legacy_connect_sensor valid_mac mac =
     (if \<not> valid_mac mac then [Print ''Invalid MAC.'']
      else [RunCoroutineThreadsafe (ReconnectInternal mac)])"

text \<open>
  \<^verbatim>\<open>View.connect_sensor\<close> of \<^verbatim>\<open>src/openhrv/view.py\<close>. \<open>currentText\<close> is the text of the
  address menu and \<open>sensors\<close> is \<^verbatim>\<open>self.model.sensors\<close>. \<^verbatim>\<open>valid_address\<close> and
  \<^verbatim>\<open>get_sensor_address\<close> are imported from \<^verbatim>\<open>openhrv.utils\<close>, which is not among the
  sources: both are parameters. What \<^verbatim>\<open>connect_client\<close> does with its arguments belongs to
  \<^verbatim>\<open>openhrv.sensor\<close>; the handler's part is the call.
\<close>

definition connect_sensor ::
  "(string \<Rightarrow> bool) \<Rightarrow> ('d \<Rightarrow> string) \<Rightarrow> 'd list \<Rightarrow> string \<Rightarrow> 'd effect list \<times> completion" where
  "connect_sensor valid_address get_sensor_address sensors currentText =
     (if currentText = [] then ([], Returned)
      else (case getitem (str_split CHR '','' currentText) 1 of
              Inl err \<Rightarrow> ([], Raised err)
            | Inr field \<Rightarrow>
                (let address = str_strip field
                 in if \<not> valid_address address
                    then ([Print (''Invalid sensor address: '' @ address @ ''.'')], Returned)
                    else ([ConnectClient (filter (\<lambda>s. get_sensor_address s = address) sensors)],
                          Returned))))"

text \<open>\<^verbatim>\<open>View.show_status\<close>, with \<^verbatim>\<open>print_to_terminal\<close> at its default \<^verbatim>\<open>True\<close>.\<close>

definition show_status :: "string \<Rightarrow> 'd effect list" where
  "show_status status = [ShowMessage status, Print status]"

text \<open>
  \<^verbatim>\<open>View.get_filepath\<close> of \<^verbatim>\<open>src/openhrv/view.py\<close>. \<open>file_path\<close> is what the file dialog
  returned (empty when the user cancelled). \<^verbatim>\<open>valid_path\<close> is imported from
  \<^verbatim>\<open>openhrv.utils\<close>, which is not among the sources: it is a parameter.
\<close>

definition get_filepath :: "(string \<Rightarrow> bool) \<Rightarrow> string \<Rightarrow> 'd effect list" where
  "get_filepath valid_path file_path =
     (if file_path = [] then []
      else if \<not> valid_path file_path then show_status ''File path is invalid or exists already.''
      else [EmitStartRecording file_path])"

section \<open>The checks of \<^verbatim>\<open>utils\<close>, as the specification words them\<close>

text \<open>
  Modelled from the spec: the address check \<^verbatim>\<open>valid_address\<close> (\<^verbatim>\<open>valid_mac\<close> in the older
  revision), whose module \<^verbatim>\<open>utils\<close> is not among the sources. The specification, section 6:
  "identifier format validated as a colon- or hyphen-separated 6-group hexadecimal hardware
  address (case-insensitive)". A group is taken to be two hexadecimal digits, as in a
  hardware address.
\<close>

definition is_hex :: "char \<Rightarrow> bool" where
  "is_hex c = (c \<in> set ''0123456789abcdefABCDEF'')"

text \<open>
  Modelled from the spec: \<open>n\<close> groups of two hexadecimal digits, each separator a colon or a
  hyphen (part of the address check of \<^verbatim>\<open>utils\<close>, which is not among the sources).
\<close>

fun hex_groups :: "nat \<Rightarrow> string \<Rightarrow> bool" where
  "hex_groups n (a # b # rest) =
     (is_hex a \<and> is_hex b \<and>
      (case rest of
         [] \<Rightarrow> n = 1
       | sep # others \<Rightarrow> 1 < n \<and> (sep = CHR '':'' \<or> sep = CHR ''-'') \<and> hex_groups (n - 1) others))"
| "hex_groups n _ = False"

text \<open>
  Modelled from the spec: \<^verbatim>\<open>valid_address\<close> of \<^verbatim>\<open>utils\<close>, which is not among the sources:
  six groups.
\<close>

definition valid_address :: "string \<Rightarrow> bool" where
  "valid_address address = hex_groups 6 address"

text \<open>
  Modelled from the spec: the path check \<^verbatim>\<open>valid_path\<close>, whose module \<^verbatim>\<open>openhrv.utils\<close> is
  not among the sources. The specification, section 6: "validity check: target's parent
  directory exists and (unless overwrite explicitly requested) the target does not already
  exist". \<^verbatim>\<open>get_filepath\<close> has no way to request an overwrite. The file system answers the
  two questions.
\<close>

record file_system =
  parent_is_dir :: "string \<Rightarrow> bool"
  path_exists :: "string \<Rightarrow> bool"

text \<open>
  Modelled from the spec: \<^verbatim>\<open>valid_path\<close> of \<^verbatim>\<open>openhrv.utils\<close>, which is not among the
  sources: the parent directory exists and the target does not.
\<close>

definition valid_path :: "file_system \<Rightarrow> string \<Rightarrow> bool" where
  "valid_path fs path = (parent_is_dir fs path \<and> \<not> path_exists fs path)"

text \<open>A file system with every directory in place and one recording made already.\<close>

definition one_recording :: file_system where
  "one_recording =
     \<lparr>parent_is_dir = (\<lambda>p. True), path_exists = (\<lambda>p. p = ''/home/user/session.csv'')\<rparr>"

section \<open>The shared model and the sensor client, as the specification words them\<close>

text \<open>
  Modelled from the spec: the fields of the shared model (the class \<^verbatim>\<open>Model\<close> of
  \<^verbatim>\<open>openhrv/model.py\<close> is not among the sources; the window holds it and wires it to its
  widgets). Section 3: "ibi_buffer: ordered sequence of (timestamp-offset-seconds: float,
  IBI-milliseconds: int)" and "hrv_target: bounded integer (e.g. 50-600 ms), one current
  value, user-settable". Time offsets are carried as real numbers.
\<close>

record model =
  ibis_buffer :: "(real \<times> int) list"
  hrv_target :: int

text \<open>The bounds of the HRV target: \<^verbatim>\<open>self.hrv_target.setRange(50, 600)\<close> in
  \<^verbatim>\<open>src/view.py\<close>; \<^verbatim>\<open>src/openhrv/view.py\<close> imports them by name from its configuration.\<close>

definition MIN_HRV_TARGET :: int where
  "MIN_HRV_TARGET = 50"

definition MAX_HRV_TARGET :: int where
  "MAX_HRV_TARGET = 600"

text \<open>\<open>clamp(x, MIN, MAX)\<close>, as the specification writes it.\<close>

definition clamp :: "int \<Rightarrow> int \<Rightarrow> int \<Rightarrow> int" where
  "clamp x lo hi = max lo (min hi x)"

text \<open>
  Modelled from the spec: the model at startup (\<^verbatim>\<open>Model.__init__\<close> is not among the
  sources). Section 3: "constructed once at startup with empty buffers and default scalar
  values"; section 8: "hrv_target default 250".
\<close>

definition initial_model :: model where
  "initial_model = \<lparr>ibis_buffer = [], hrv_target = 250\<rparr>"

text \<open>
  Modelled from the spec: the setter of the HRV target (\<^verbatim>\<open>Model.update_hrv_target\<close>, the slot
  of the slider's \<^verbatim>\<open>valueChanged\<close>, is not among the sources). Section 4.1:
  "set_pacer_rate/set_hrv_target clamp silently into range rather than failing"; section 3:
  "clamped on write, never on read".
\<close>

definition update_hrv_target :: "int \<Rightarrow> model \<Rightarrow> model" where
  "update_hrv_target x m =
     m\<lparr>hrv_target :=
         (if x < MIN_HRV_TARGET then MIN_HRV_TARGET
          else if MAX_HRV_TARGET < x then MAX_HRV_TARGET
          else x)\<rparr>"

text \<open>
  The slider of the HRV target in the window's constructor:
  \<^verbatim>\<open>
  self.hrv_target = QSlider(Qt.Horizontal)
  self.hrv_target.setRange(MIN_HRV_TARGET, MAX_HRV_TARGET)
  self.hrv_target.setSingleStep(10)
  self.hrv_target.valueChanged.connect(self.model.update_hrv_target)
  self.hrv_target.setSliderPosition(self.model.hrv_target)
  \<close>
  The slider is Qt's. Its documented contract: a new slider has the range 0 to 99 and the
  value 0; the value is kept within the range; \<^verbatim>\<open>setRange\<close> brings the value back into
  the new range; \<^verbatim>\<open>valueChanged\<close> is emitted when the value changes, and only then; with
  tracking on (the default) setting the position sets the value. A setter returns the
  slider and the signal it emitted, if any.
\<close>

record qslider =
  minimum :: int
  maximum :: int
  position :: int

definition QSlider :: qslider where
  "QSlider = \<lparr>minimum = 0, maximum = 99, position = 0\<rparr>"

definition setValue :: "int \<Rightarrow> qslider \<Rightarrow> qslider \<times> int option" where
  "setValue x sl =
     (let v = max (minimum sl) (min (maximum sl) x)
      in if v = position sl then (sl, None) else (sl\<lparr>position := v\<rparr>, Some v))"

definition setRange :: "int \<Rightarrow> int \<Rightarrow> qslider \<Rightarrow> qslider \<times> int option" where
  "setRange lo hi sl = setValue (position sl) (sl\<lparr>minimum := lo, maximum := max lo hi\<rparr>)"

text \<open>\<^verbatim>\<open>valueChanged\<close>, once connected, calls its slot with the new value. The slot the
  window connects is the model's setter, \<^verbatim>\<open>self.model.update_hrv_target\<close>.\<close>

definition valueChanged :: "(int \<Rightarrow> model \<Rightarrow> model) \<Rightarrow> int option \<Rightarrow> model \<Rightarrow> model" where
  "valueChanged slot emitted m = (case emitted of None \<Rightarrow> m | Some v \<Rightarrow> slot v m)"

text \<open>The five lines above: the range is set before the signal is connected, so what
  \<^verbatim>\<open>setRange\<close> emits is heard by nobody.\<close>

definition init_hrv_slider :: "(int \<Rightarrow> model \<Rightarrow> model) \<Rightarrow> model \<Rightarrow> qslider \<times> model" where
  "init_hrv_slider slot m =
     (let (sl1, unheard) = setRange MIN_HRV_TARGET MAX_HRV_TARGET QSlider;
          (sl2, emitted) = setValue (hrv_target m) sl1
      in (sl2, valueChanged slot emitted m))"

text \<open>The slider is set to \<open>x\<close>, by the user or by the program.\<close>

definition move_hrv_slider ::
  "(int \<Rightarrow> model \<Rightarrow> model) \<Rightarrow> int \<Rightarrow> qslider \<times> model \<Rightarrow> qslider \<times> model" where
  "move_hrv_slider slot x w =
     (let (sl, emitted) = setValue x (fst w) in (sl, valueChanged slot emitted (snd w)))"

text \<open>
  Modelled from the spec: the connection states of the sensor client (the class
  \<^verbatim>\<open>SensorClient\<close> of \<^verbatim>\<open>openhrv/sensor.py\<close> is not among the sources). Section 3 names
  the states; section 4.2:
  "disconnect(): tears down the active connection if any; idempotent - calling it while
  already disconnected is a no-op, not an error", and "Connected -> Disconnected on I/O
  failure or explicit disconnect request". The call returns the new state and the status
  texts it emits; \<open>status\<close> is the text that reports a disconnect.
\<close>

datatype connection_state = Disconnected | Scanning | Connecting | Connected

text \<open>
  Modelled from the spec: \<^verbatim>\<open>SensorClient.disconnect_client\<close>, which is not among the
  sources: only a client that is connected has something to tear down.
\<close>

definition disconnect_client :: "string \<Rightarrow> connection_state \<Rightarrow> connection_state \<times> string list" where
  "disconnect_client status c = (if c = Connected then (Disconnected, [status]) else (c, []))"

text \<open>
  \<^verbatim>\<open>View.disconnect_sensor\<close> of \<^verbatim>\<open>src/openhrv/view.py\<close> calls the client's disconnect and
  nothing else; the constructor connects the client's \<^verbatim>\<open>status_update\<close> to
  \<^verbatim>\<open>show_status\<close>, so each status text the call emits is shown.
\<close>

definition disconnect_sensor :: "string \<Rightarrow> connection_state \<Rightarrow> connection_state \<times> 'd effect list" where
  "disconnect_sensor status c =
     (let (c', emitted) = disconnect_client status c in (c', concat (map show_status emitted)))"

section \<open>The external publisher\<close>

lemma getitem_last: "xs \<noteq> [] \<Longrightarrow> getitem xs (- 1) = Inr (last xs)"
  by (cases xs rule: rev_cases) (simp_all add: getitem_def Let_def)

lemma getitem_empty: "getitem [] i = Inl IndexError"
  by (simp add: getitem_def Let_def)

lemma latest_scalar: "\<not> is_sequence val \<Longrightarrow> latest val = Inr val"
  by (cases val) (simp_all add: latest_def is_sequence_def)

lemma publish_reduced:
  "latest val = Inr v \<Longrightarrow>
   attempts (fst (publish redis s (key, val))) = attempts s @ [(key, int_of_int32 v)]"
  by (simp add: publish_def Let_def split: redis_reply.split)

text \<open>
  C9. For an update whose payload is an empty list or an empty array, the handler ends
  with an \<^verbatim>\<open>IndexError\<close> that nothing catches: \<^verbatim>\<open>val[-1]\<close> is evaluated before the
  \<^verbatim>\<open>try\<close>, which guards the network call alone. The publisher's state is as it was: no
  call to the network client was made and nothing was printed.
\<close>

theorem publish_empty_sequence_raises:
  "publish redis s (key, PList []) = (s, Raised IndexError)
   \<and> publish redis s (key, PArray []) = (s, Raised IndexError)"
  by (simp add: publish_def latest_def getitem_empty)

text \<open>
  C4. The call to the network client carries the update's field name as the channel. For a
  list or an array with an element, the value sent is the last element; any other value is
  sent as it is. In both cases a \<^verbatim>\<open>numpy.int32\<close> goes out as the builtin \<^verbatim>\<open>int\<close> of
  the same number, and that is the only change.
\<close>

theorem publish_channel_and_latest:
  "(xs \<noteq> [] \<longrightarrow>
      attempts (fst (publish redis s (key, PList xs))) = attempts s @ [(key, int_of_int32 (last xs))]
    \<and> attempts (fst (publish redis s (key, PArray xs))) = attempts s @ [(key, int_of_int32 (last xs))])
   \<and> (\<not> is_sequence val \<longrightarrow>
      attempts (fst (publish redis s (key, val))) = attempts s @ [(key, int_of_int32 val)])
   \<and> (int_of_int32 v = v \<or> (\<exists>w. v = PInt32 w \<and> int_of_int32 v = PInt (sint w)))"
proof (intro conjI impI)
  assume ne: "xs \<noteq> []"
  have "latest (PList xs) = Inr (last xs)"
    using ne by (simp add: latest_def getitem_last)
  then show "attempts (fst (publish redis s (key, PList xs))) = attempts s @ [(key, int_of_int32 (last xs))]"
    by (rule publish_reduced)
  have "latest (PArray xs) = Inr (last xs)"
    using ne by (simp add: latest_def getitem_last)
  then show "attempts (fst (publish redis s (key, PArray xs))) = attempts s @ [(key, int_of_int32 (last xs))]"
    by (rule publish_reduced)
next
  assume "\<not> is_sequence val"
  then have "latest val = Inr val" by (rule latest_scalar)
  then show "attempts (fst (publish redis s (key, val))) = attempts s @ [(key, int_of_int32 val)]"
    by (rule publish_reduced)
next
  show "int_of_int32 v = v \<or> (\<exists>w. v = PInt32 w \<and> int_of_int32 v = PInt (sint w))"
    by (cases v) (simp_all add: int_of_int32_def)
qed

theorem publish_channel_and_latest_witness:
  "attempts (fst (publish down_three_times fresh_logger (''ibis'', PList [PInt 800, PInt 820, PInt 790])))
     = [(''ibis'', PInt 790)]
   \<and> attempts (fst (publish down_three_times fresh_logger (''ibis'', PArray [PInt32 800, PInt32 820])))
     = [(''ibis'', PInt 820)]
   \<and> attempts (fst (publish down_three_times fresh_logger (''hrv_target'', PInt 250)))
     = [(''hrv_target'', PInt 250)]"
proof -
  have ne: "[PInt 800, PInt 820, PInt 790] \<noteq> []" "[PInt32 800, PInt32 820] \<noteq> []" by simp_all
  have sc: "\<not> is_sequence (PInt 250)" by (simp add: is_sequence_def)
  have a: "attempts (fst (publish down_three_times fresh_logger (''ibis'', PList [PInt 800, PInt 820, PInt 790])))
     = [(''ibis'', PInt 790)]"
    using publish_channel_and_latest [of "[PInt 800, PInt 820, PInt 790]" down_three_times fresh_logger "''ibis''"] ne
    by (simp add: fresh_logger_def int_of_int32_def)
  have b: "attempts (fst (publish down_three_times fresh_logger (''ibis'', PArray [PInt32 800, PInt32 820])))
     = [(''ibis'', PInt 820)]"
    using publish_channel_and_latest [of "[PInt32 800, PInt32 820]" down_three_times fresh_logger "''ibis''"] ne
    by (simp add: fresh_logger_def int_of_int32_def)
  have c: "attempts (fst (publish down_three_times fresh_logger (''hrv_target'', PInt 250)))
     = [(''hrv_target'', PInt 250)]"
    using publish_channel_and_latest [of _ down_three_times fresh_logger "''hrv_target''" "PInt 250"] sc
    by (simp add: fresh_logger_def int_of_int32_def)
  from a b c show ?thesis by simp
qed

text \<open>
  C2. When the network call of an update raises \<^verbatim>\<open>ConnectionError\<close>, the handler returns
  normally: the error is printed, the call was made once and is not repeated, and the update
  is not among the delivered ones. The update after it, of any field, is handed to the
  network client as well.
\<close>

theorem publish_connection_error_dropped:
  assumes "latest val = Inr v"
    and "redis (length (attempts s)) key (int_of_int32 v) = ConnectionError e"
    and "latest val' = Inr v'"
  shows "publish redis s (key, val)
           = (s\<lparr>attempts := attempts s @ [(key, int_of_int32 v)], printed := printed s @ [e]\<rparr>, Returned)
         \<and> attempts (fst (publish redis (fst (publish redis s (key, val))) (key', val')))
           = attempts s @ [(key, int_of_int32 v), (key', int_of_int32 v')]"
proof -
  have first: "publish redis s (key, val)
           = (s\<lparr>attempts := attempts s @ [(key, int_of_int32 v)], printed := printed s @ [e]\<rparr>, Returned)"
    using assms(1,2) by (simp add: publish_def Let_def)
  have "attempts (fst (publish redis (fst (publish redis s (key, val))) (key', val')))
          = attempts (fst (publish redis s (key, val))) @ [(key', int_of_int32 v')]"
    using assms(3) by (rule publish_reduced)
  with first show ?thesis by simp
qed

theorem publish_connection_error_dropped_witness:
  "latest (PInt 250) = Inr (PInt 250)
   \<and> down_three_times (length (attempts fresh_logger)) ''hrv_target'' (int_of_int32 (PInt 250))
       = ConnectionError ''Connection refused''
   \<and> latest (PArray [PInt32 800, PInt32 820]) = Inr (PInt32 820)
   \<and> publish down_three_times fresh_logger (''hrv_target'', PInt 250)
       = (\<lparr>attempts = [(''hrv_target'', PInt 250)], delivered = [], printed = [''Connection refused'']\<rparr>,
          Returned)
   \<and> attempts (fst (publish down_three_times
            (fst (publish down_three_times fresh_logger (''hrv_target'', PInt 250)))
            (''ibis'', PArray [PInt32 800, PInt32 820])))
       = [(''hrv_target'', PInt 250), (''ibis'', PInt 820)]"
proof -
  have h1: "latest (PInt 250) = Inr (PInt 250)" by (simp add: latest_def)
  have h2: "down_three_times (length (attempts fresh_logger)) ''hrv_target'' (int_of_int32 (PInt 250))
       = ConnectionError ''Connection refused''"
    by (simp add: down_three_times_def fresh_logger_def)
  have h3: "latest (PArray [PInt32 800, PInt32 820]) = Inr (PInt32 820)"
    by (simp add: latest_def getitem_def)
  note th = publish_connection_error_dropped [where redis = down_three_times and s = fresh_logger
        and key = "''hrv_target''" and val = "PInt 250" and v = "PInt 250"
        and e = "''Connection refused''" and key' = "''ibis''"
        and val' = "PArray [PInt32 800, PInt32 820]" and v' = "PInt32 820", OF h1 h2 h3]
  have c1: "publish down_three_times fresh_logger (''hrv_target'', PInt 250)
       = (\<lparr>attempts = [(''hrv_target'', PInt 250)], delivered = [], printed = [''Connection refused'']\<rparr>,
          Returned)"
    using th [THEN conjunct1] by (simp add: fresh_logger_def int_of_int32_def)
  have c2: "attempts (fst (publish down_three_times
            (fst (publish down_three_times fresh_logger (''hrv_target'', PInt 250)))
            (''ibis'', PArray [PInt32 800, PInt32 820])))
       = [(''hrv_target'', PInt 250), (''ibis'', PInt 820)]"
    using th [THEN conjunct2] by (simp add: fresh_logger_def int_of_int32_def)
  from h1 h2 h3 c1 c2 show ?thesis by (intro conjI)
qed

section \<open>Shutdown\<close>

text \<open>
  C3. The order of shutdown. In \<^verbatim>\<open>src/view.py\<close> the sensor thread is told to quit first,
  then the sensor's asyncio loop is asked, through \<^verbatim>\<open>run_coroutine_threadsafe\<close>, to run
  the sensor's \<^verbatim>\<open>stop\<close>, and only then is the thread joined. In
  \<^verbatim>\<open>src/openhrv/view.py\<close> the sensor has no thread: the client's disconnect is called
  directly, ahead of the quit and the join of the logger thread.
\<close>

theorem closeEvent_order:
  "issued_before (ThreadQuit SensorThread) (RunCoroutineThreadsafe SensorStop) legacy_closeEvent
   \<and> issued_before (RunCoroutineThreadsafe SensorStop) (ThreadWait SensorThread) legacy_closeEvent
   \<and> issued_before DisconnectClient (ThreadQuit LoggerThread) closeEvent
   \<and> issued_before (ThreadQuit LoggerThread) (ThreadWait LoggerThread) closeEvent
   \<and> ThreadQuit SensorThread \<notin> set closeEvent
   \<and> ThreadWait SensorThread \<notin> set closeEvent"
  by (simp add: issued_before_def legacy_closeEvent_def closeEvent_def)

text \<open>
  C3 with the stop of the loop scheduled before the sensor thread is told to quit: in
  \<^verbatim>\<open>src/view.py\<close> that is not the order.
\<close>

theorem closeEvent_order_counterexample:
  "\<not> issued_before (RunCoroutineThreadsafe SensorStop) (ThreadQuit SensorThread) legacy_closeEvent"
  by (simp add: issued_before_def legacy_closeEvent_def)

section \<open>Connecting to a sensor\<close>

lemma connect_sensor_invalid:
  "currentText \<noteq> [] \<Longrightarrow> getitem (str_split CHR '','' currentText) 1 = Inr field \<Longrightarrow>
   \<not> valid (str_strip field) \<Longrightarrow>
   connect_sensor valid addr_of sensors currentText
     = ([Print (''Invalid sensor address: '' @ str_strip field @ ''.'')], Returned)"
  by (simp add: connect_sensor_def Let_def)

lemma connect_sensor_attempt:
  "ConnectClient ds \<in> set (fst (connect_sensor valid addr_of sensors currentText)) \<Longrightarrow>
   \<exists>field. getitem (str_split CHR '','' currentText) 1 = Inr field \<and> valid (str_strip field)"
  by (auto simp: connect_sensor_def Let_def split: if_splits sum.splits)

lemma split_example:
  "getitem (str_split CHR '','' ''Polar H10, AA:BB:CC:DD:EE'') 1 = Inr '' AA:BB:CC:DD:EE''"
  by (simp add: getitem_def)

lemma strip_example: "str_strip '' AA:BB:CC:DD:EE'' = ''AA:BB:CC:DD:EE''"
  by (simp add: str_strip_def isspace_def)

lemma five_groups_invalid: "\<not> valid_address ''AA:BB:CC:DD:EE''"
  by (simp add: valid_address_def is_hex_def)

text \<open>
  C5. In both revisions the address is checked before anything is attempted. An address
  the check rejects gets a printed message and the handler returns; a connection is
  attempted (\<^verbatim>\<open>run_coroutine_threadsafe\<close> of the reconnect, or \<^verbatim>\<open>connect_client\<close>) only
  for an address the check accepted. In \<^verbatim>\<open>src/openhrv/view.py\<close> the address is the second
  comma-separated field of the menu's text, stripped. The statement holds for every check
  \<open>valid\<close>.
\<close>

theorem connect_sensor_validates_first:
  "(\<not> valid mac \<longrightarrow> legacy_connect_sensor valid mac = [Print ''Invalid MAC.''])
   \<and> (RunCoroutineThreadsafe c \<in> set (legacy_connect_sensor valid mac) \<longrightarrow> valid mac)
   \<and> (currentText \<noteq> [] \<and> getitem (str_split CHR '','' currentText) 1 = Inr field
        \<and> \<not> valid (str_strip field) \<longrightarrow>
       connect_sensor valid addr_of sensors currentText
         = ([Print (''Invalid sensor address: '' @ str_strip field @ ''.'')], Returned))
   \<and> (ConnectClient ds \<in> set (fst (connect_sensor valid addr_of sensors currentText)) \<longrightarrow>
       (\<exists>field. getitem (str_split CHR '','' currentText) 1 = Inr field \<and> valid (str_strip field)))"
proof (intro conjI impI)
  assume "\<not> valid mac"
  then show "legacy_connect_sensor valid mac = [Print ''Invalid MAC.'']"
    by (simp add: legacy_connect_sensor_def)
next
  assume "RunCoroutineThreadsafe c \<in> set (legacy_connect_sensor valid mac)"
  then show "valid mac"
    by (simp add: legacy_connect_sensor_def split: if_splits)
next
  assume "currentText \<noteq> [] \<and> getitem (str_split CHR '','' currentText) 1 = Inr field
        \<and> \<not> valid (str_strip field)"
  then show "connect_sensor valid addr_of sensors currentText
         = ([Print (''Invalid sensor address: '' @ str_strip field @ ''.'')], Returned)"
    by (simp add: connect_sensor_invalid)
next
  assume "ConnectClient ds \<in> set (fst (connect_sensor valid addr_of sensors currentText))"
  then show "\<exists>field. getitem (str_split CHR '','' currentText) 1 = Inr field \<and> valid (str_strip field)"
    by (rule connect_sensor_attempt)
qed

theorem connect_sensor_validates_first_witness:
  "\<not> valid_address ''AA:BB:CC:DD:EE''
   \<and> legacy_connect_sensor valid_address ''AA:BB:CC:DD:EE'' = ([Print ''Invalid MAC.''] :: string effect list)
   \<and> getitem (str_split CHR '','' ''Polar H10, AA:BB:CC:DD:EE'') 1 = Inr '' AA:BB:CC:DD:EE''
   \<and> connect_sensor valid_address (\<lambda>d. d) [''AA:BB:CC:DD:EE:FF''] ''Polar H10, AA:BB:CC:DD:EE''
       = ([Print ''Invalid sensor address: AA:BB:CC:DD:EE.''], Returned)"
proof -
  note th = connect_sensor_validates_first [where valid = valid_address and mac = "''AA:BB:CC:DD:EE''"
      and currentText = "''Polar H10, AA:BB:CC:DD:EE''" and field = "'' AA:BB:CC:DD:EE''"
      and addr_of = "\<lambda>d. d" and sensors = "[''AA:BB:CC:DD:EE:FF'']"]
  have a: "legacy_connect_sensor valid_address ''AA:BB:CC:DD:EE'' = ([Print ''Invalid MAC.''] :: string effect list)"
    using th [THEN conjunct1] five_groups_invalid by simp
  have b: "connect_sensor valid_address (\<lambda>d. d) [''AA:BB:CC:DD:EE:FF''] ''Polar H10, AA:BB:CC:DD:EE''
       = ([Print ''Invalid sensor address: AA:BB:CC:DD:EE.''], Returned)"
    using th [THEN conjunct2, THEN conjunct2, THEN conjunct1] split_example five_groups_invalid
    by (simp add: strip_example)
  from five_groups_invalid a split_example b show ?thesis by (intro conjI)
qed

text \<open>
  C10. With no address selected (the menu's text is empty) the handler of
  \<^verbatim>\<open>src/openhrv/view.py\<close> returns at once: it issues nothing, whatever the check and the
  known sensors are.
\<close>

theorem connect_sensor_no_selection:
  "connect_sensor valid addr_of sensors [] = ([], Returned)"
  by (simp add: connect_sensor_def)

section \<open>Starting a recording\<close>

lemma get_filepath_invalid:
  "file_path \<noteq> [] \<Longrightarrow> \<not> valid file_path \<Longrightarrow>
   get_filepath valid file_path
     = [ShowMessage ''File path is invalid or exists already.'',
        Print ''File path is invalid or exists already.'']"
  by (simp add: get_filepath_def show_status_def)

text \<open>
  C6. For a path the user chose, if the path check rejects it the handler shows the status
  message (status bar and terminal) and does nothing else; the request to start recording
  is emitted only for the chosen path and only when the check accepted it, so the recorder
  never sees a rejected path and no file is opened. This holds for every check \<open>valid\<close>;
  with the check as the specification words it, a path that exists or whose parent is not a
  directory is rejected.
\<close>

theorem get_filepath_rejects:
  "(file_path \<noteq> [] \<and> \<not> valid file_path \<longrightarrow>
      get_filepath valid file_path
        = [ShowMessage ''File path is invalid or exists already.'',
           Print ''File path is invalid or exists already.''])
   \<and> (EmitStartRecording p \<in> set (get_filepath valid file_path) \<longrightarrow> p = file_path \<and> valid file_path)
   \<and> (file_path \<noteq> [] \<and> (path_exists fs file_path \<or> \<not> parent_is_dir fs file_path) \<longrightarrow>
      get_filepath (valid_path fs) file_path
        = [ShowMessage ''File path is invalid or exists already.'',
           Print ''File path is invalid or exists already.''])"
proof (intro conjI impI)
  assume "file_path \<noteq> [] \<and> \<not> valid file_path"
  then show "get_filepath valid file_path
        = [ShowMessage ''File path is invalid or exists already.'',
           Print ''File path is invalid or exists already.'']"
    by (simp add: get_filepath_invalid)
next
  assume e: "EmitStartRecording p \<in> set (get_filepath valid file_path)"
  then show "p = file_path" "valid file_path"
    by (simp_all add: get_filepath_def show_status_def split: if_splits)
next
  assume "file_path \<noteq> [] \<and> (path_exists fs file_path \<or> \<not> parent_is_dir fs file_path)"
  then have "file_path \<noteq> []" and "\<not> valid_path fs file_path"
    by (auto simp: valid_path_def)
  then show "get_filepath (valid_path fs) file_path
        = [ShowMessage ''File path is invalid or exists already.'',
           Print ''File path is invalid or exists already.'']"
    by (rule get_filepath_invalid)
qed

theorem get_filepath_rejects_witness:
  "''/home/user/session.csv'' \<noteq> []
   \<and> path_exists one_recording ''/home/user/session.csv''
   \<and> get_filepath (valid_path one_recording) ''/home/user/session.csv''
       = ([ShowMessage ''File path is invalid or exists already.'',
           Print ''File path is invalid or exists already.''] :: unit effect list)
   \<and> EmitStartRecording ''/home/user/session.csv''
       \<notin> set (get_filepath (valid_path one_recording) ''/home/user/session.csv'' :: unit effect list)"
proof -
  have ne: "''/home/user/session.csv'' \<noteq> []" by simp
  have ex: "path_exists one_recording ''/home/user/session.csv''"
    by (simp add: one_recording_def)
  note th = get_filepath_rejects [where file_path = "''/home/user/session.csv''" and fs = one_recording
      and valid = "valid_path one_recording" and p = "''/home/user/session.csv''"]
  have a: "get_filepath (valid_path one_recording) ''/home/user/session.csv''
       = ([ShowMessage ''File path is invalid or exists already.'',
           Print ''File path is invalid or exists already.''] :: unit effect list)"
    using th [THEN conjunct2, THEN conjunct2] ne ex by simp
  have "\<not> valid_path one_recording ''/home/user/session.csv''"
    using ex by (simp add: valid_path_def)
  then have b: "EmitStartRecording ''/home/user/session.csv''
       \<notin> set (get_filepath (valid_path one_recording) ''/home/user/session.csv'' :: unit effect list)"
    using th [THEN conjunct2, THEN conjunct1] by blast
  from ne ex a b show ?thesis by (intro conjI)
qed

section \<open>The HRV target\<close>

lemma update_hrv_target_clamp:
  "hrv_target (update_hrv_target x m) = clamp x MIN_HRV_TARGET MAX_HRV_TARGET"
  by (simp add: update_hrv_target_def clamp_def MIN_HRV_TARGET_def MAX_HRV_TARGET_def)

lemma init_hrv_slider_sync:
  assumes stores: "\<forall>v m'. MIN_HRV_TARGET \<le> v \<and> v \<le> MAX_HRV_TARGET \<longrightarrow> hrv_target (slot v m') = v"
    and lo: "MIN_HRV_TARGET \<le> hrv_target m" and hi: "hrv_target m \<le> MAX_HRV_TARGET"
  shows "fst (init_hrv_slider slot m)
           = \<lparr>minimum = MIN_HRV_TARGET, maximum = MAX_HRV_TARGET, position = hrv_target m\<rparr>
         \<and> hrv_target (snd (init_hrv_slider slot m)) = hrv_target m"
proof -
  have ranged: "setRange MIN_HRV_TARGET MAX_HRV_TARGET QSlider
      = (\<lparr>minimum = MIN_HRV_TARGET, maximum = MAX_HRV_TARGET, position = MIN_HRV_TARGET\<rparr>,
         Some MIN_HRV_TARGET)"
    by (simp add: setRange_def setValue_def QSlider_def MIN_HRV_TARGET_def MAX_HRV_TARGET_def)
  show ?thesis
  proof (cases "hrv_target m = MIN_HRV_TARGET")
    case True
    with lo hi show ?thesis
      by (simp add: init_hrv_slider_def ranged setValue_def valueChanged_def Let_def)
  next
    case False
    from stores lo hi have "hrv_target (slot (hrv_target m) m) = hrv_target m" by blast
    with False lo hi show ?thesis
      by (simp add: init_hrv_slider_def ranged setValue_def valueChanged_def Let_def)
  qed
qed

lemma clamp_bounds:
  "MIN_HRV_TARGET \<le> clamp x MIN_HRV_TARGET MAX_HRV_TARGET
   \<and> clamp x MIN_HRV_TARGET MAX_HRV_TARGET \<le> MAX_HRV_TARGET"
  by (simp add: clamp_def MIN_HRV_TARGET_def MAX_HRV_TARGET_def)

lemma move_hrv_slider_sync:
  assumes stores: "\<forall>v m'. MIN_HRV_TARGET \<le> v \<and> v \<le> MAX_HRV_TARGET \<longrightarrow> hrv_target (slot v m') = v"
    and rng: "minimum sl = MIN_HRV_TARGET" "maximum sl = MAX_HRV_TARGET"
    and sync: "position sl = hrv_target m"
  shows "hrv_target (snd (move_hrv_slider slot x (sl, m))) = clamp x MIN_HRV_TARGET MAX_HRV_TARGET"
proof (cases "clamp x MIN_HRV_TARGET MAX_HRV_TARGET = position sl")
  case True
  with rng sync show ?thesis
    by (simp add: move_hrv_slider_def setValue_def valueChanged_def clamp_def Let_def)
next
  case False
  from stores clamp_bounds [of x]
  have "hrv_target (slot (clamp x MIN_HRV_TARGET MAX_HRV_TARGET) m) = clamp x MIN_HRV_TARGET MAX_HRV_TARGET"
    by blast
  with False rng show ?thesis
    by (simp add: move_hrv_slider_def setValue_def valueChanged_def clamp_def Let_def)
qed

lemma update_hrv_target_stores:
  "\<forall>v m'. MIN_HRV_TARGET \<le> v \<and> v \<le> MAX_HRV_TARGET \<longrightarrow> hrv_target (update_hrv_target v m') = v"
  by (simp add: update_hrv_target_def)

text \<open>
  C7. For every integer \<open>x\<close>, setting the HRV target to \<open>x\<close> and reading it gives
  \<open>clamp x MIN MAX\<close>; the setter has no error result. The same holds along the window's
  wiring, whatever the slot does with values outside the bounds: if the slot stores the
  values within the bounds, and the slider is set up as the constructor does on a model
  whose target is within the bounds, then setting the slider to \<open>x\<close> leaves
  \<open>clamp x MIN MAX\<close> in the model.
\<close>

theorem hrv_target_clamped:
  "hrv_target (update_hrv_target x m) = clamp x MIN_HRV_TARGET MAX_HRV_TARGET
   \<and> ((\<forall>v m'. MIN_HRV_TARGET \<le> v \<and> v \<le> MAX_HRV_TARGET \<longrightarrow> hrv_target (slot v m') = v)
        \<and> MIN_HRV_TARGET \<le> hrv_target m \<and> hrv_target m \<le> MAX_HRV_TARGET \<longrightarrow>
      hrv_target (snd (move_hrv_slider slot x (init_hrv_slider slot m)))
        = clamp x MIN_HRV_TARGET MAX_HRV_TARGET)"
proof (intro conjI impI)
  show "hrv_target (update_hrv_target x m) = clamp x MIN_HRV_TARGET MAX_HRV_TARGET"
    by (rule update_hrv_target_clamp)
next
  assume h: "(\<forall>v m'. MIN_HRV_TARGET \<le> v \<and> v \<le> MAX_HRV_TARGET \<longrightarrow> hrv_target (slot v m') = v)
        \<and> MIN_HRV_TARGET \<le> hrv_target m \<and> hrv_target m \<le> MAX_HRV_TARGET"
  then have stores: "\<forall>v m'. MIN_HRV_TARGET \<le> v \<and> v \<le> MAX_HRV_TARGET \<longrightarrow> hrv_target (slot v m') = v"
    and lo: "MIN_HRV_TARGET \<le> hrv_target m" and hi: "hrv_target m \<le> MAX_HRV_TARGET"
    by simp_all
  obtain sl m1 where w: "init_hrv_slider slot m = (sl, m1)"
    by (cases "init_hrv_slider slot m")
  from init_hrv_slider_sync [OF stores lo hi] w
  have "minimum sl = MIN_HRV_TARGET" "maximum sl = MAX_HRV_TARGET" "position sl = hrv_target m1"
    by simp_all
  with stores have "hrv_target (snd (move_hrv_slider slot x (sl, m1))) = clamp x MIN_HRV_TARGET MAX_HRV_TARGET"
    by (rule move_hrv_slider_sync)
  with w show "hrv_target (snd (move_hrv_slider slot x (init_hrv_slider slot m)))
        = clamp x MIN_HRV_TARGET MAX_HRV_TARGET"
    by simp
qed

theorem hrv_target_clamped_witness:
  "MIN_HRV_TARGET \<le> hrv_target initial_model \<and> hrv_target initial_model \<le> MAX_HRV_TARGET
   \<and> hrv_target (update_hrv_target 700 initial_model) = 600
   \<and> hrv_target (snd (move_hrv_slider update_hrv_target 700 (init_hrv_slider update_hrv_target initial_model)))
       = 600"
proof -
  note st = update_hrv_target_stores
  have r: "MIN_HRV_TARGET \<le> hrv_target initial_model \<and> hrv_target initial_model \<le> MAX_HRV_TARGET"
    by (simp add: initial_model_def MIN_HRV_TARGET_def MAX_HRV_TARGET_def)
  have c: "clamp 700 MIN_HRV_TARGET MAX_HRV_TARGET = 600"
    by (simp add: clamp_def MIN_HRV_TARGET_def MAX_HRV_TARGET_def)
  note th = hrv_target_clamped [of 700 initial_model update_hrv_target]
  have a: "hrv_target (update_hrv_target 700 initial_model) = 600"
    using th [THEN conjunct1] c by simp
  have b: "hrv_target (snd (move_hrv_slider update_hrv_target 700 (init_hrv_slider update_hrv_target initial_model)))
       = 600"
    using th [THEN conjunct2] st r c by simp
  from r a b show ?thesis by blast
qed

section \<open>Disconnecting\<close>

text \<open>
  C8. Disconnecting a sensor that is already disconnected returns with the state as it
  was and shows no status message. In particular a second disconnect, whatever the state
  before the first, changes nothing and shows nothing.
\<close>

theorem disconnect_sensor_idempotent:
  "disconnect_sensor status Disconnected = (Disconnected, [])
   \<and> disconnect_sensor status (fst (disconnect_sensor status c :: connection_state \<times> 'd effect list))
       = (fst (disconnect_sensor status c :: connection_state \<times> 'd effect list), [])"
  by (simp add: disconnect_sensor_def disconnect_client_def)

end
